theory Spec2Isabelle
  imports Main
begin

section \<open>JavaScript values, errors and elements\<close>

text \<open>
  The script under verification is \<^verbatim>\<open>src/pages/script.js\<close>, a collection of browser
  helpers. Every function is embedded as a HOL function over an explicit picture of the
  part of the page it reads and writes. A thrown exception is a value of \<open>js_error\<close>;
  a function that can throw returns \<open>js_error + 'a\<close> with \<open>Inl\<close> for the exception.
\<close>

datatype error_name = TypeError | NotFoundError | SyntaxError | AbortError | Error

datatype js_error = Exn error_name string

fun error_message :: "js_error \<Rightarrow> string" where
  "error_message (Exn n m) = m"

text \<open>
  The values a property read on an object literal can produce: a string of the literal,
  a built-in function or object inherited from \<^verbatim>\<open>Object.prototype\<close>, or
  \<^verbatim>\<open>undefined\<close>.
\<close>

datatype js_value = JUndefined | JString string | JFunction string | JObject string

fun truthy :: "js_value \<Rightarrow> bool" where
  "truthy JUndefined = False"
| "truthy (JString s) = (s \<noteq> [])"
| "truthy (JFunction f) = True"
| "truthy (JObject ob) = True"

text \<open>The operator \<^verbatim>\<open>a || b\<close>.\<close>

definition js_or :: "js_value \<Rightarrow> js_value \<Rightarrow> js_value" where
  "js_or a b = (if truthy a then a else b)"

text \<open>
  The properties every object literal inherits from \<^verbatim>\<open>Object.prototype\<close>: eleven
  built-in methods and the accessor \<^verbatim>\<open>__proto__\<close>, which yields the prototype object.
\<close>

definition prototype_methods :: "string list" where
  "prototype_methods =
     [''__defineGetter__'', ''__defineSetter__'', ''hasOwnProperty'', ''__lookupGetter__'',
      ''__lookupSetter__'', ''isPrototypeOf'', ''propertyIsEnumerable'', ''toString'',
      ''valueOf'', ''toLocaleString'']"

definition object_prototype :: "string \<Rightarrow> js_value" where
  "object_prototype k =
     (if k = ''constructor'' then JFunction ''Object''
      else if k = ''__proto__'' then JObject ''Object.prototype''
      else if k \<in> set prototype_methods then JFunction k
      else JUndefined)"

text \<open>
  \<^verbatim>\<open>obj[key]\<close> on an object literal with the own properties \<open>own\<close>: the own property
  when there is one, the inherited one otherwise.
\<close>

definition get_property :: "(string \<times> string) list \<Rightarrow> string \<Rightarrow> js_value" where
  "get_property own k =
     (case map_of own k of Some v \<Rightarrow> JString v | None \<Rightarrow> object_prototype k)"

text \<open>
  An element, as far as the script looks at it: its \<^verbatim>\<open>id\<close>, its class list, its
  markup, and the \<^verbatim>\<open>animation\<close> and \<^verbatim>\<open>background\<close> properties of its inline style.
\<close>

record element =
  el_id :: string
  classes :: "string list"
  innerHTML :: string
  animation :: string
  background :: string

definition classList_contains :: "string \<Rightarrow> 'a element_scheme \<Rightarrow> bool" where
  "classList_contains c e = (c \<in> set (classes e))"

definition classList_add :: "string \<Rightarrow> 'a element_scheme \<Rightarrow> 'a element_scheme" where
  "classList_add c e = (if c \<in> set (classes e) then e else e\<lparr>classes := classes e @ [c]\<rparr>)"

definition classList_remove :: "string \<Rightarrow> 'a element_scheme \<Rightarrow> 'a element_scheme" where
  "classList_remove c e = e\<lparr>classes := removeAll c (classes e)\<rparr>"

definition classList_toggle :: "string \<Rightarrow> 'a element_scheme \<Rightarrow> 'a element_scheme" where
  "classList_toggle c e = (if c \<in> set (classes e) then classList_remove c e else classList_add c e)"

section \<open>Notification icon and colour\<close>

definition icons :: "(string \<times> string) list" where
  "icons =
     [(''success'', ''fa-check-circle''),
      (''error'', ''fa-exclamation-circle''),
      (''warning'', ''fa-exclamation-triangle''),
      (''info'', ''fa-info-circle'')]"

definition getNotificationIcon :: "string \<Rightarrow> js_value" where
  "getNotificationIcon type = js_or (get_property icons type) (get_property icons ''info'')"

definition colors :: "(string \<times> string) list" where
  "colors =
     [(''success'', ''linear-gradient(90deg, #10b981, #34d399)''),
      (''error'', ''linear-gradient(90deg, #ef4444, #f87171)''),
      (''warning'', ''linear-gradient(90deg, #f59e0b, #fbbf24)''),
      (''info'', ''linear-gradient(90deg, #3b82f6, #60a5fa)'')]"

definition getNotificationColor :: "string \<Rightarrow> js_value" where
  "getNotificationColor type = js_or (get_property colors type) (get_property colors ''info'')"

text \<open>What a template literal prints for a value.\<close>

fun to_string :: "js_value \<Rightarrow> string" where
  "to_string JUndefined = ''undefined''"
| "to_string (JString s) = s"
| "to_string (JFunction f) = ''function '' @ f @ ''() { [native code] }''"
| "to_string (JObject ob) = ''[object Object]''"

section \<open>Loading state\<close>

text \<open>
  The element handed to \<^verbatim>\<open>showLoading\<close> and \<^verbatim>\<open>hideLoading\<close>: an element with a
  \<^verbatim>\<open>disabled\<close> property and attributes. \<open>None\<close> stands for a \<^verbatim>\<open>null\<close> reference, and for
  an argument left out where the parameter is optional. Both functions mutate the element
  in place; the model returns it.
\<close>

record control = element +
  disabled :: bool
  attributes :: "string \<rightharpoonup> string"

definition spinner :: string where
  \<open>spinner = ''<i class="fas fa-spinner fa-spin" style="margin-right: 0.5rem;"></i>''\<close>

definition bool_string :: "bool \<Rightarrow> string" where
  "bool_string b = (if b then ''true'' else ''false'')"

definition showLoading :: "control option \<Rightarrow> string option \<Rightarrow> control option" where
  "showLoading element loadingText =
     (case element of
        None \<Rightarrow> None
      | Some e \<Rightarrow>
          let text = (case loadingText of None \<Rightarrow> ''Loading...'' | Some t \<Rightarrow> t);
              e1 = e\<lparr>attributes := (attributes e)(''data-original-content'' \<mapsto> innerHTML e)\<rparr>;
              e2 = e1\<lparr>attributes :=
                       (attributes e1)(''data-original-disabled'' \<mapsto> bool_string (disabled e1))\<rparr>
          in Some (e2\<lparr>innerHTML := spinner @ text, disabled := True\<rparr>))"

definition hideLoading :: "control option \<Rightarrow> control option" where
  "hideLoading element =
     (case element of
        None \<Rightarrow> None
      | Some e \<Rightarrow>
          let originalContent = attributes e ''data-original-content'';
              originalDisabled = attributes e ''data-original-disabled'';
              e1 = (case originalContent of
                      None \<Rightarrow> e
                    | Some c \<Rightarrow>
                        if c \<noteq> [] then
                          e\<lparr>innerHTML := c,
                            attributes := (attributes e)(''data-original-content'' := None)\<rparr>
                        else e)
          in Some (case originalDisabled of
                     None \<Rightarrow> e1
                   | Some d \<Rightarrow>
                       e1\<lparr>disabled := (d = ''true''),
                          attributes := (attributes e1)(''data-original-disabled'' := None)\<rparr>))"

section \<open>Form errors\<close>

text \<open>
  A form input: an element with a border colour, a focus flag and a parent. \<open>siblings\<close>
  is \<open>None\<close> for an input with no parent node, and otherwise lists the other elements
  under the parent in document order.
\<close>

record form_input = element +
  borderColor :: string
  focused :: bool
  siblings :: "element list option"

text \<open>\<^verbatim>\<open>parent.querySelector('.form-error')\<close> followed by \<^verbatim>\<open>remove()\<close> when it finds one.\<close>

fun remove_first_error :: "element list \<Rightarrow> element list" where
  "remove_first_error [] = []"
| "remove_first_error (x # xs) =
     (if classList_contains ''form-error'' x then xs else x # remove_first_error xs)"

definition error_element :: "string \<Rightarrow> element" where
  \<open>error_element msg =
     \<lparr>el_id = [], classes = [''form-error''],
      innerHTML = ''<i class="fas fa-exclamation-circle"></i>'' @ msg, animation = [],
      background = []\<rparr>\<close>

definition showFormError :: "form_input option \<Rightarrow> string \<Rightarrow> js_error + form_input" where
  "showFormError input msg =
     (case input of
        None \<Rightarrow> Inl (Exn TypeError ''Cannot read properties of null (reading parentNode)'')
      | Some i \<Rightarrow>
          (case siblings i of
             None \<Rightarrow> Inl (Exn TypeError ''Cannot read properties of null (reading querySelector)'')
           | Some xs \<Rightarrow>
               let i1 = classList_add ''error'' i;
                   i2 = i1\<lparr>borderColor := ''#ef4444''\<rparr>;
                   i3 = i2\<lparr>siblings := Some (remove_first_error xs @ [error_element msg])\<rparr>
               in Inr (i3\<lparr>focused := True\<rparr>)))"

definition clearFormError :: "form_input option \<Rightarrow> js_error + form_input" where
  "clearFormError input =
     (case input of
        None \<Rightarrow> Inl (Exn TypeError ''Cannot read properties of null (reading classList)'')
      | Some i \<Rightarrow>
          let i1 = classList_remove ''error'' i;
              i2 = i1\<lparr>borderColor := []\<rparr>
          in (case siblings i2 of
                None \<Rightarrow> Inl (Exn TypeError ''Cannot read properties of null (reading querySelector)'')
              | Some xs \<Rightarrow> Inr (i2\<lparr>siblings := Some (remove_first_error xs)\<rparr>)))"

section \<open>The request wrapper\<close>

text \<open>
  What a \<^verbatim>\<open>catch\<close> block can receive. A promise of the host rejects with an error object
  as a rule, but a request aborted through its signal rejects with the reason the caller
  gave the signal, which can be any value. \<open>ThrownValue v\<close> is a value other than
  \<^verbatim>\<open>null\<close>, \<^verbatim>\<open>undefined\<close> and the error objects, and \<open>v\<close> is what reading its
  \<^verbatim>\<open>message\<close> property gives.
\<close>

datatype thrown = ThrownNull | ThrownUndefined | ThrownError js_error | ThrownValue js_value

text \<open>\<^verbatim>\<open>error.message\<close>: the read itself throws on \<^verbatim>\<open>null\<close> and \<^verbatim>\<open>undefined\<close>.\<close>

fun read_message :: "thrown \<Rightarrow> js_error + js_value" where
  "read_message ThrownNull =
     Inl (Exn TypeError ''Cannot read properties of null (reading message)'')"
| "read_message ThrownUndefined =
     Inl (Exn TypeError ''Cannot read properties of undefined (reading message)'')"
| "read_message (ThrownError e) = Inr (JString (error_message e))"
| "read_message (ThrownValue v) = Inr v"

text \<open>
  An options object is a map from its own keys to their values; the object spread
  \<^verbatim>\<open>{ ...a, ...b }\<close> is the map \<open>a ++ b\<close>, in which a key of \<open>b\<close> replaces the same key
  of \<open>a\<close> together with its whole value. Header objects are association lists. A signal
  is \<open>OSignal None\<close> while it is not aborted and \<open>OSignal (Some reason)\<close> once it is.
\<close>

datatype option_value =
    OUndefined
  | OString string
  | OHeaders "(string \<times> string) list"
  | OSignal "thrown option"

type_synonym request_init = "string \<rightharpoonup> option_value"

definition default_headers :: "(string \<times> string) list" where
  "default_headers = [(''Content-Type'', ''application/json''), (''Accept'', ''application/json'')]"

definition defaultOptions :: request_init where
  "defaultOptions =
     [''headers'' \<mapsto> OHeaders default_headers, ''credentials'' \<mapsto> OString ''same-origin'']"

text \<open>\<open>None\<close> is a call without the second argument: the parameter defaults to \<^verbatim>\<open>{}\<close>.\<close>

definition mergedOptions :: "request_init option \<Rightarrow> request_init" where
  "mergedOptions options =
     defaultOptions ++ (case options of None \<Rightarrow> Map.empty | Some ob \<Rightarrow> ob)"

text \<open>The value of one header of the request, when its \<^verbatim>\<open>headers\<close> option is a header object.\<close>

definition request_header :: "request_init \<Rightarrow> string \<Rightarrow> string option" where
  "request_header init k =
     (case init ''headers'' of Some (OHeaders hs) \<Rightarrow> map_of hs k | _ \<Rightarrow> None)"

text \<open>
  The host's \<^verbatim>\<open>fetch\<close> is a parameter. Its promise either rejects with some value or
  resolves to a response with a status and a body; decoding the body as JSON either
  rejects with some value or gives the payload.
\<close>

record 'd response =
  ok :: bool
  status :: nat
  json :: "thrown + 'd"

datatype 'd fetch_outcome = Rejected thrown | Resolved "'d response"

text \<open>
  The two result shapes: \<^verbatim>\<open>{success: true, data}\<close> and \<^verbatim>\<open>{success: false, error}\<close>, where
  \<^verbatim>\<open>error\<close> is whatever \<^verbatim>\<open>error.message || 'Network error occurred'\<close> evaluates to.
\<close>

datatype 'd api_result = Success 'd | Failure js_value

fun show_nat :: "nat \<Rightarrow> string" where
  "show_nat n =
     (if n < 10 then [''0123456789'' ! n]
      else show_nat (n div 10) @ [''0123456789'' ! (n mod 10)])"

text \<open>The body of the \<^verbatim>\<open>try\<close> block: \<open>Inl\<close> is what it throws.\<close>

definition apiRequest_try ::
  "(string \<Rightarrow> request_init \<Rightarrow> 'd fetch_outcome) \<Rightarrow> string \<Rightarrow> request_init option
     \<Rightarrow> thrown + 'd api_result" where
  "apiRequest_try fetch url options =
     (case fetch url (mergedOptions options) of
        Rejected reason \<Rightarrow> Inl reason
      | Resolved r \<Rightarrow>
          if \<not> ok r then
            Inl (ThrownError (Exn Error (''HTTP error! status: '' @ show_nat (status r))))
          else (case json r of Inl reason \<Rightarrow> Inl reason | Inr d \<Rightarrow> Inr (Success d)))"

text \<open>
  The \<^verbatim>\<open>catch\<close> block: \<open>Inl\<close> is what the block itself throws. Its call of
  \<^verbatim>\<open>console.error\<close> only writes to the console and is left out.
\<close>

definition apiRequest_catch :: "thrown \<Rightarrow> js_error + 'd api_result" where
  "apiRequest_catch error =
     (case read_message error of
        Inl e \<Rightarrow> Inl e
      | Inr m \<Rightarrow> Inr (Failure (js_or m (JString ''Network error occurred''))))"

text \<open>
  A call of \<^verbatim>\<open>apiRequest\<close>: the requests it hands to \<^verbatim>\<open>fetch\<close>, each with its URL and
  options, and how its promise settles, where \<open>Inl\<close> is a promise that rejects to the
  caller.
\<close>

record 'd api_call =
  requests :: "(string \<times> request_init) list"
  settled :: "js_error + 'd api_result"

definition apiRequest ::
  "(string \<Rightarrow> request_init \<Rightarrow> 'd fetch_outcome) \<Rightarrow> string \<Rightarrow> request_init option
     \<Rightarrow> 'd api_call" where
  "apiRequest fetch url options =
     \<lparr>requests = [(url, mergedOptions options)],
      settled = (case apiRequest_try fetch url options of
                   Inr r \<Rightarrow> Inr r
                 | Inl error \<Rightarrow> apiRequest_catch error)\<rparr>"

section \<open>Navigation\<close>

text \<open>
  The page globals of the navigation code: the three element references looked up when
  the script loads (\<open>None\<close> when the lookup found nothing), the \<^verbatim>\<open>overflow\<close> style of the
  document body and the vertical scroll offset, in whole pixels.
\<close>

record page =
  menuToggle :: "element option"
  navLinks :: "element option"
  navbar :: "element option"
  overflow :: string
  scrollY :: int

definition bars_icon :: string where
  \<open>bars_icon = ''<i class="fas fa-bars"></i>''\<close>

definition times_icon :: string where
  \<open>times_icon = ''<i class="fas fa-times"></i>''\<close>

definition handleNavbarScroll :: "'a page_scheme \<Rightarrow> 'a page_scheme" where
  "handleNavbarScroll p =
     (case navbar p of
        None \<Rightarrow> p
      | Some n \<Rightarrow>
          if scrollY p > 50 then p\<lparr>navbar := Some (classList_add ''scrolled'' n)\<rparr>
          else p\<lparr>navbar := Some (classList_remove ''scrolled'' n)\<rparr>)"

definition toggleMobileMenu :: "'a page_scheme \<Rightarrow> js_error + 'a page_scheme" where
  "toggleMobileMenu p =
     (case navLinks p of
        None \<Rightarrow> Inl (Exn TypeError ''Cannot read properties of null (reading classList)'')
      | Some l \<Rightarrow>
          let l1 = classList_toggle ''active'' l;
              p1 = p\<lparr>navLinks := Some l1\<rparr>
          in (case menuToggle p1 of
                None \<Rightarrow> Inl (Exn TypeError ''Cannot set properties of null (setting innerHTML)'')
              | Some t \<Rightarrow>
                  if classList_contains ''active'' l1 then
                    Inr (p1\<lparr>menuToggle := Some (t\<lparr>innerHTML := times_icon\<rparr>), overflow := ''hidden''\<rparr>)
                  else
                    Inr (p1\<lparr>menuToggle := Some (t\<lparr>innerHTML := bars_icon\<rparr>), overflow := []\<rparr>)))"

definition closeMobileMenu :: "'a page_scheme \<Rightarrow> js_error + 'a page_scheme" where
  "closeMobileMenu p =
     (case navLinks p of
        None \<Rightarrow> Inl (Exn TypeError ''Cannot read properties of null (reading classList)'')
      | Some l \<Rightarrow>
          let p1 = p\<lparr>navLinks := Some (classList_remove ''active'' l)\<rparr>;
              p2 = (case menuToggle p1 of
                      None \<Rightarrow> p1
                    | Some t \<Rightarrow> p1\<lparr>menuToggle := Some (t\<lparr>innerHTML := bars_icon\<rparr>)\<rparr>)
          in Inr (p2\<lparr>overflow := []\<rparr>))"

text \<open>
  What the two \<^verbatim>\<open>contains\<close> tests of the handler find for the target of the click, at the
  moment the handler runs.
\<close>

record click_target =
  in_navLinks :: bool
  in_menuToggle :: bool

definition handleClickOutside :: "click_target \<Rightarrow> 'a page_scheme \<Rightarrow> js_error + 'a page_scheme" where
  "handleClickOutside target p =
     (case navLinks p of
        None \<Rightarrow> Inr p
      | Some l \<Rightarrow>
          if classList_contains ''active'' l \<and> \<not> in_navLinks target then
            (case menuToggle p of
               None \<Rightarrow> Inl (Exn TypeError ''Cannot read properties of null (reading contains)'')
             | Some t \<Rightarrow> if \<not> in_menuToggle target then closeMobileMenu p else Inr p)
          else Inr p)"

text \<open>The key listener that \<^verbatim>\<open>initMobileMenu\<close> installs on the document.\<close>

definition menuKeydown :: "string \<Rightarrow> 'a page_scheme \<Rightarrow> js_error + 'a page_scheme" where
  "menuKeydown key p =
     (if key = ''Escape'' then
        (case navLinks p of
           None \<Rightarrow> Inl (Exn TypeError ''Cannot read properties of null (reading classList)'')
         | Some l \<Rightarrow> if classList_contains ''active'' l then closeMobileMenu p else Inr p)
      else Inr p)"

text \<open>
  A click, as the page is when the click is dispatched: whether its target is the
  toggle itself, an element inside the toggle (its icon), or neither, and whether the
  target lies in the menu.
\<close>

datatype toggle_place = ToggleItself | InsideToggle | OutsideToggle

record click =
  place :: toggle_place
  target_in_navLinks :: bool

definition target_at_dispatch :: "click \<Rightarrow> click_target" where
  "target_at_dispatch c =
     \<lparr>in_navLinks = target_in_navLinks c, in_menuToggle = (place c \<noteq> OutsideToggle)\<rparr>"

text \<open>
  \<^verbatim>\<open>toggleMobileMenu\<close> assigns the \<^verbatim>\<open>innerHTML\<close> of the toggle, which takes the former
  content of the toggle out of the document. A target inside the toggle is then
  contained neither in the toggle nor in the menu (the menu is not part of the
  toggle's content); the toggle itself and a target elsewhere stay where they are.
\<close>

definition target_after_toggle :: "click \<Rightarrow> click_target" where
  "target_after_toggle c =
     (if place c = InsideToggle then \<lparr>in_navLinks = False, in_menuToggle = False\<rparr>
      else target_at_dispatch c)"

text \<open>
  The listeners of the mobile menu as \<^verbatim>\<open>initNavigation\<close> and \<^verbatim>\<open>initMobileMenu\<close> install
  them. A click first reaches the listener of the toggle, when its target is the toggle
  or inside it and \<^verbatim>\<open>initMobileMenu\<close> found both elements, and then, on the path the
  event was given at dispatch, the document's \<^verbatim>\<open>handleClickOutside\<close>. A key press reaches
  the key listener, installed under the same condition. Clicks on the links of the menu
  have a listener of their own, which is not part of these two functions.
\<close>

definition menu_installed :: "'a page_scheme \<Rightarrow> bool" where
  "menu_installed p = (menuToggle p \<noteq> None \<and> navLinks p \<noteq> None)"

definition click_event :: "click \<Rightarrow> 'a page_scheme \<Rightarrow> js_error + 'a page_scheme" where
  "click_event c p =
     (if place c \<noteq> OutsideToggle \<and> menu_installed p then
        (case toggleMobileMenu p of
           Inl e \<Rightarrow> Inl e
         | Inr p1 \<Rightarrow> handleClickOutside (target_after_toggle c) p1)
      else handleClickOutside (target_at_dispatch c) p)"

definition keydown_event :: "string \<Rightarrow> 'a page_scheme \<Rightarrow> js_error + 'a page_scheme" where
  "keydown_event key p = (if menu_installed p then menuKeydown key p else Inr p)"

text \<open>The two states of the menu, and what the page shows in each.\<close>

definition menu_open :: "'a page_scheme \<Rightarrow> bool" where
  "menu_open p = (case navLinks p of None \<Rightarrow> False | Some l \<Rightarrow> classList_contains ''active'' l)"

definition toggle_icon :: "'a page_scheme \<Rightarrow> string option" where
  "toggle_icon p = map_option innerHTML (menuToggle p)"

section \<open>Notifications and the modal\<close>

text \<open>
  The overlay code creates elements, hangs them under the document body, installs
  listeners and starts timers. The world below extends the page with what that needs:
  \<^item> \<open>nodes\<close>, the store of elements by node number, and \<open>next_node\<close>, the number
    \<^verbatim>\<open>createElement\<close> gives out next;
  \<^item> \<open>body\<close>, the elements attached under the document body, in document order;
  \<^item> \<open>head_styles\<close>, the keyframes of the style elements appended to the head;
  \<^item> \<open>keydown_listeners\<close>, the key listeners the modal code has on the document;
  \<^item> \<open>timers\<close>, the pending \<^verbatim>\<open>setTimeout\<close> callbacks with their delays;
  \<^item> \<open>modals\<close>, the closure of each \<^verbatim>\<open>showModal\<close> call, under the number of its overlay;
  \<^item> \<open>notifications\<close>, the notifications whose close button has its listener.
  Three fields record what happened: \<open>calls\<close> lists the invocations of \<^verbatim>\<open>onClose\<close>
  callbacks (modal and callback), \<open>detached\<close> lists the elements taken out of the
  document, and \<open>uncaught\<close> lists the exceptions thrown out of timer callbacks. A
  callback of the caller is a number, and calling it is an entry of \<open>calls\<close>.
\<close>

record modal_options =
  title :: "string option"
  content :: "string option"
  onClose :: "nat option"
  closeOnOutsideClick :: "bool option"

record modal =
  title_text :: string
  body_html :: string
  content_animation :: string
  options :: modal_options

datatype callback = RemoveNotification nat | AutoDismiss nat | Teardown nat

datatype listener = CloseOnEscape nat

record world = page +
  next_node :: nat
  nodes :: "nat \<Rightarrow> element"
  body :: "nat list"
  head_styles :: "string list"
  keydown_listeners :: "listener list"
  timers :: "(callback \<times> nat) list"
  modals :: "nat \<rightharpoonup> modal"
  notifications :: "nat list"
  calls :: "(nat \<times> nat) list"
  detached :: "nat list"
  uncaught :: "js_error list"

text \<open>\<^verbatim>\<open>element.remove()\<close>: takes an attached element out, and does nothing to any other.\<close>

definition remove_node :: "nat \<Rightarrow> world \<Rightarrow> world" where
  "remove_node b w =
     (if b \<in> set (body w) then w\<lparr>body := removeAll b (body w), detached := detached w @ [b]\<rparr>
      else w)"

text \<open>\<^verbatim>\<open>setTimeout(callback, delay)\<close>.\<close>

definition setTimeout :: "callback \<Rightarrow> nat \<Rightarrow> world \<Rightarrow> world" where
  "setTimeout cb delay w = w\<lparr>timers := timers w @ [(cb, delay)]\<rparr>"

definition set_animation :: "nat \<Rightarrow> string \<Rightarrow> world \<Rightarrow> world" where
  "set_animation b a w = w\<lparr>nodes := (nodes w)(b := (nodes w b)\<lparr>animation := a\<rparr>)\<rparr>"

subsection \<open>showNotification\<close>

definition notification_markup :: "string \<Rightarrow> string \<Rightarrow> string" where
  \<open>notification_markup icon msg =
     ''<div class="notification-content"><i class="fas '' @ icon @ ''"></i><span>'' @ msg
       @ ''</span></div><button class="notification-close"><i class="fas fa-times"></i></button>''\<close>

text \<open>
  The message goes into the markup as it is, and the host's HTML parser, which is not
  part of the script, decides what elements come out. The script depends on one fact
  about the outcome: whether \<^verbatim>\<open>notification.querySelector('.notification-close')\<close> finds
  a close button. It does for a message of plain text; it does not for a message that
  opens a comment or a raw-text element and so swallows the rest of the template. A
  message is therefore given as its text together with that fact.
\<close>

record message =
  markup :: string
  close_button_found :: bool

text \<open>
  \<open>None\<close> for the type or the duration is a call that leaves the argument out. The class
  name \<^verbatim>\<open>notification notification-${type}\<close> is kept as its two tokens, and the markup
  without the white space of the template. The background of the inline style is the
  colour when the lookup gives a string; any other value prints as text that is no
  background, and the declaration is dropped. The result is the exception the call
  throws, if any, and the world it leaves: without a close button
  \<^verbatim>\<open>closeBtn.addEventListener\<close> throws, after the old notification is gone and the style
  element is in the head, and before the timer is started and the element attached.
\<close>

definition showNotification ::
  "message \<Rightarrow> string option \<Rightarrow> nat option \<Rightarrow> world \<Rightarrow> js_error option \<times> world" where
  "showNotification msg type duration w =
     (let ty = (case type of None \<Rightarrow> ''info'' | Some t \<Rightarrow> t);
          dur = (case duration of None \<Rightarrow> 3000 | Some d \<Rightarrow> d);
          w1 = (case List.find (\<lambda>b. classList_contains ''notification'' (nodes w b)) (body w) of
                  None \<Rightarrow> w
                | Some existingNotification \<Rightarrow> remove_node existingNotification w);
          notification = next_node w1;
          el = \<lparr>el_id = [], classes = [''notification'', ''notification-'' @ ty],
                innerHTML = notification_markup (to_string (getNotificationIcon ty)) (markup msg),
                animation = ''slideIn 0.3s ease'',
                background = (case getNotificationColor ty of JString c \<Rightarrow> c | _ \<Rightarrow> [])\<rparr>;
          w2 = w1\<lparr>next_node := Suc notification, nodes := (nodes w1)(notification := el)\<rparr>;
          w3 = w2\<lparr>head_styles := head_styles w2 @ [''slideIn'']\<rparr>
      in if \<not> close_button_found msg then
           (Some (Exn TypeError ''Cannot read properties of null (reading addEventListener)''), w3)
         else
           let w4 = w3\<lparr>notifications := notifications w3 @ [notification]\<rparr>;
               w5 = setTimeout (AutoDismiss notification) dur w4
           in (None, w5\<lparr>body := body w5 @ [notification]\<rparr>))"

text \<open>The click listener of the close button of notification \<open>n\<close>.\<close>

definition notification_close_click :: "nat \<Rightarrow> world \<Rightarrow> world" where
  "notification_close_click n w =
     (if n \<in> set (notifications w) then
        setTimeout (RemoveNotification n) 300 (set_animation n ''slideOut 0.3s ease forwards'' w)
      else w)"

text \<open>The callback of the automatic dismissal of notification \<open>n\<close>.\<close>

definition auto_dismiss :: "nat \<Rightarrow> world \<Rightarrow> world" where
  "auto_dismiss n w =
     (if n \<in> set (body w) then
        setTimeout (RemoveNotification n) 300 (set_animation n ''slideOut 0.3s ease forwards'' w)
      else w)"

subsection \<open>showModal\<close>

text \<open>
  The options are an object with the four fields the function reads, each \<open>None\<close> when
  absent. The overlay gets the next node number, which also names the closure; the
  title, the body markup and the animation of the content box live in the closure
  record. The hover listeners of the close button only restyle the button and are left
  out.
\<close>

definition closeModal :: "nat \<Rightarrow> world \<Rightarrow> world" where
  "closeModal m w =
     (case modals w m of
        None \<Rightarrow> w
      | Some c \<Rightarrow>
          let w1 = set_animation m ''fadeOut 0.3s ease forwards'' w;
              w2 = w1\<lparr>modals := (modals w1)(m \<mapsto> c\<lparr>content_animation := ''slideDown 0.3s ease forwards''\<rparr>)\<rparr>;
              w3 = w2\<lparr>head_styles := head_styles w2 @ [''fadeOut slideDown'']\<rparr>
          in setTimeout (Teardown m) 300 w3)"

text \<open>
  The timer callback of \<^verbatim>\<open>closeModal\<close>. \<^verbatim>\<open>document.body.removeChild\<close> throws when the
  overlay is not a child of the body, and the exception leaves the callback.
\<close>

definition teardown :: "nat \<Rightarrow> world \<Rightarrow> world" where
  "teardown m w =
     (case modals w m of
        None \<Rightarrow> w
      | Some c \<Rightarrow>
          if m \<in> set (body w) then
            let w1 = w\<lparr>body := removeAll m (body w), detached := detached w @ [m]\<rparr>;
                w2 = w1\<lparr>overflow := []\<rparr>
            in (case onClose (options c) of
                  None \<Rightarrow> w2
                | Some f \<Rightarrow> w2\<lparr>calls := calls w2 @ [(m, f)]\<rparr>)
          else
            w\<lparr>uncaught := uncaught w @
                 [Exn NotFoundError ''The node to be removed is not a child of this node.'']\<rparr>)"

definition showModal :: "modal_options \<Rightarrow> world \<Rightarrow> nat \<times> world" where
  "showModal opts w =
     (let w1 = (case List.find (\<lambda>b. el_id (nodes w b) = ''dynamic-modal'') (body w) of
                  None \<Rightarrow> w
                | Some existingModal \<Rightarrow> remove_node existingModal w);
          modalOverlay = next_node w1;
          el = \<lparr>el_id = ''dynamic-modal'', classes = [''modal-overlay''], innerHTML = [],
                animation = ''fadeIn 0.3s ease'', background = ''rgba(0, 0, 0, 0.9)''\<rparr>;
          w2 = w1\<lparr>next_node := Suc modalOverlay, nodes := (nodes w1)(modalOverlay := el)\<rparr>;
          w3 = w2\<lparr>head_styles := head_styles w2 @ [''fadeIn slideUp'']\<rparr>;
          c = \<lparr>title_text = (case title opts of None \<Rightarrow> ''Modal''
                                | Some t \<Rightarrow> if t \<noteq> [] then t else ''Modal''),
               body_html = (case content opts of None \<Rightarrow> [] | Some h \<Rightarrow> h),
               content_animation = ''slideUp 0.3s ease'',
               options = opts\<rparr>;
          w4 = w3\<lparr>modals := (modals w3)(modalOverlay \<mapsto> c)\<rparr>;
          w5 = w4\<lparr>body := body w4 @ [modalOverlay]\<rparr>;
          w6 = w5\<lparr>overflow := ''hidden''\<rparr>;
          w7 = w6\<lparr>keydown_listeners := keydown_listeners w6 @ [CloseOnEscape modalOverlay]\<rparr>
      in (modalOverlay, w7))"

text \<open>The second method of the handle.\<close>

definition updateContent :: "nat \<Rightarrow> string \<Rightarrow> world \<Rightarrow> world" where
  "updateContent m newContent w =
     (case modals w m of
        None \<Rightarrow> w
      | Some c \<Rightarrow> w\<lparr>modals := (modals w)(m \<mapsto> c\<lparr>body_html := newContent\<rparr>)\<rparr>)"

text \<open>The key listener \<^verbatim>\<open>closeOnEscape\<close> of modal \<open>m\<close>.\<close>

definition closeOnEscape :: "nat \<Rightarrow> string \<Rightarrow> world \<Rightarrow> world" where
  "closeOnEscape m key w =
     (if key = ''Escape'' then
        (let w1 = closeModal m w
         in w1\<lparr>keydown_listeners := remove1 (CloseOnEscape m) (keydown_listeners w1)\<rparr>)
      else w)"

text \<open>
  The click listener of the overlay, installed unless \<^verbatim>\<open>closeOnOutsideClick\<close> is
  \<^verbatim>\<open>false\<close>; \<open>on_overlay\<close> says that the click landed on the overlay itself.
\<close>

definition overlay_click :: "nat \<Rightarrow> bool \<Rightarrow> world \<Rightarrow> world" where
  "overlay_click m on_overlay w =
     (case modals w m of
        None \<Rightarrow> w
      | Some c \<Rightarrow>
          if closeOnOutsideClick (options c) \<noteq> Some False \<and> on_overlay then closeModal m w
          else w)"

subsection \<open>Events\<close>

text \<open>
  What can happen to the world: a call of an exposed function or of a method of a
  handle, a click, a key press, or the host running a pending timer. The host runs
  timers by their delays; the model lets any pending timer run next, which covers
  every order the host can choose. An exception that a call of an exposed function
  throws goes to its caller; the step keeps the world the call leaves.
\<close>

datatype event =
    ShowNotification message "string option" "nat option"
  | NotificationCloseClick nat
  | ShowModal modal_options
  | HandleClose nat
  | HandleUpdateContent nat string
  | CloseButtonClick nat
  | OverlayClick nat bool
  | KeyDown string
  | Timer nat

fun run_callback :: "callback \<Rightarrow> world \<Rightarrow> world" where
  "run_callback (RemoveNotification n) w = remove_node n w"
| "run_callback (AutoDismiss n) w = auto_dismiss n w"
| "run_callback (Teardown m) w = teardown m w"

definition fire_timer :: "nat \<Rightarrow> world \<Rightarrow> world" where
  "fire_timer k w =
     (if k < length (timers w) then
        run_callback (fst (timers w ! k)) (w\<lparr>timers := take k (timers w) @ drop (Suc k) (timers w)\<rparr>)
      else w)"

fun run_listener :: "string \<Rightarrow> listener \<Rightarrow> world \<Rightarrow> world" where
  "run_listener key (CloseOnEscape m) w =
     (if CloseOnEscape m \<in> set (keydown_listeners w) then closeOnEscape m key w else w)"

definition keydown :: "string \<Rightarrow> world \<Rightarrow> world" where
  "keydown key w = fold (run_listener key) (keydown_listeners w) w"

fun step :: "event \<Rightarrow> world \<Rightarrow> world" where
  "step (ShowNotification msg type duration) w = snd (showNotification msg type duration w)"
| "step (NotificationCloseClick n) w = notification_close_click n w"
| "step (ShowModal opts) w = snd (showModal opts w)"
| "step (HandleClose m) w = closeModal m w"
| "step (HandleUpdateContent m newContent) w = updateContent m newContent w"
| "step (CloseButtonClick m) w = closeModal m w"
| "step (OverlayClick m on_overlay) w = overlay_click m on_overlay w"
| "step (KeyDown key) w = keydown key w"
| "step (Timer k) w = fire_timer k w"

definition run :: "event list \<Rightarrow> world \<Rightarrow> world" where
  "run es w = fold step es w"

text \<open>
  The worlds the script can be in: every attached or detached element has a number
  already given out, and no element is attached and detached at once or detached twice.
\<close>

definition well_formed :: "world \<Rightarrow> bool" where
  "well_formed w =
     (list_all (\<lambda>b. b < next_node w) (body w) \<and> list_all (\<lambda>b. b < next_node w) (detached w)
      \<and> distinct (detached w) \<and> list_all (\<lambda>b. b \<notin> set (body w)) (detached w))"

text \<open>The elements of the document that carry the id of the modal.\<close>

definition modal_elements :: "world \<Rightarrow> nat list" where
  "modal_elements w = filter (\<lambda>b. el_id (nodes w b) = ''dynamic-modal'') (body w)"

text \<open>A page with nothing under the body, no navigation elements and nothing pending.\<close>

definition empty_world :: world where
  "empty_world =
     \<lparr>menuToggle = None, navLinks = None, navbar = None, overflow = [], scrollY = 0,
      next_node = 0,
      nodes = (\<lambda>_. \<lparr>el_id = [], classes = [], innerHTML = [], animation = [], background = []\<rparr>),
      body = [], head_styles = [], keydown_listeners = [], timers = [], modals = Map.empty,
      notifications = [], calls = [], detached = [], uncaught = []\<rparr>"

section \<open>Concrete pages and inputs\<close>

text \<open>What the page shows when the mobile menu is open, and when it is closed.\<close>

definition shows_open :: "'a page_scheme \<Rightarrow> bool" where
  "shows_open p = (menu_open p \<and> overflow p = ''hidden'' \<and> toggle_icon p = Some times_icon)"

definition shows_closed :: "'a page_scheme \<Rightarrow> bool" where
  "shows_closed p = (\<not> menu_open p \<and> overflow p = [] \<and> toggle_icon p = Some bars_icon)"

text \<open>A page with a toggle and a closed menu, and the same page with the menu open.\<close>

definition closed_page :: page where
  "closed_page =
     \<lparr>menuToggle = Some \<lparr>el_id = ''menuToggle'', classes = [''menu-toggle''],
                          innerHTML = bars_icon, animation = [], background = []\<rparr>,
      navLinks = Some \<lparr>el_id = ''navLinks'', classes = [''nav-links''], innerHTML = [],
                        animation = [], background = []\<rparr>,
      navbar = None, overflow = [], scrollY = 0\<rparr>"

definition open_page :: page where
  "open_page =
     \<lparr>menuToggle = Some \<lparr>el_id = ''menuToggle'', classes = [''menu-toggle''],
                          innerHTML = times_icon, animation = [], background = []\<rparr>,
      navLinks = Some \<lparr>el_id = ''navLinks'', classes = [''nav-links'', ''active''], innerHTML = [],
                        animation = [], background = []\<rparr>,
      navbar = None, overflow = ''hidden'', scrollY = 0\<rparr>"

text \<open>A button with no markup inside, enabled.\<close>

definition empty_button :: control where
  "empty_button =
     \<lparr>el_id = ''save'', classes = [''btn''], innerHTML = [], animation = [], background = [],
      disabled = False, attributes = Map.empty\<rparr>"

text \<open>
  Four hosts: one whose request fails in transport, one that answers 404, one that
  answers 200 with a payload, and one that does the same unless the request carries an
  aborted signal, in which case its promise rejects with the reason of the signal.
\<close>

definition offline_fetch :: "string \<Rightarrow> request_init \<Rightarrow> nat fetch_outcome" where
  "offline_fetch url init = Rejected (ThrownError (Exn TypeError ''Failed to fetch''))"

definition missing_fetch :: "string \<Rightarrow> request_init \<Rightarrow> nat fetch_outcome" where
  "missing_fetch url init = Resolved \<lparr>ok = False, status = 404, json = Inr 0\<rparr>"

definition good_fetch :: "string \<Rightarrow> request_init \<Rightarrow> nat fetch_outcome" where
  "good_fetch url init = Resolved \<lparr>ok = True, status = 200, json = Inr 7\<rparr>"

definition signal_fetch :: "string \<Rightarrow> request_init \<Rightarrow> nat fetch_outcome" where
  "signal_fetch url init =
     (case init ''signal'' of
        Some (OSignal (Some reason)) \<Rightarrow> Rejected reason
      | _ \<Rightarrow> Resolved \<lparr>ok = True, status = 200, json = Inr 7\<rparr>)"

text \<open>The options the caller supplied, \<^verbatim>\<open>{}\<close> when the argument was left out.\<close>

definition supplied :: "request_init option \<Rightarrow> request_init" where
  "supplied opts = (case opts of None \<Rightarrow> Map.empty | Some ob \<Rightarrow> ob)"

text \<open>
  The events and the timer callbacks of notifications, and the worlds in which no
  teardown of a modal is pending.
\<close>

fun notification_event :: "event \<Rightarrow> bool" where
  "notification_event (ShowNotification msg type duration) = True"
| "notification_event (NotificationCloseClick n) = True"
| "notification_event (Timer k) = True"
| "notification_event e = False"

fun notification_callback :: "callback \<Rightarrow> bool" where
  "notification_callback (Teardown m) = False"
| "notification_callback cb = True"

definition no_teardown_pending :: "world \<Rightarrow> bool" where
  "no_teardown_pending w = list_all (\<lambda>t. notification_callback (fst t)) (timers w)"

text \<open>Two option objects, and the worlds of a few short sessions on the empty page.\<close>

definition example_options :: modal_options where
  "example_options =
     \<lparr>title = Some ''Details'', content = Some ''<p>Hello</p>'', onClose = Some 0,
      closeOnOutsideClick = None\<rparr>"

definition outside_options :: modal_options where
  "outside_options =
     \<lparr>title = None, content = None, onClose = None, closeOnOutsideClick = Some True\<rparr>"

definition opened_world :: world where
  "opened_world = snd (showModal example_options empty_world)"

definition closed_world :: world where
  "closed_world = run [CloseButtonClick 0, Timer 0] opened_world"

definition notified_world :: world where
  "notified_world =
     snd (showNotification \<lparr>markup = ''Saved'', close_button_found = True\<rparr> (Some ''success'') None
            empty_world)"

section \<open>Notification icon and colour: results\<close>

lemma getNotificationIcon_known:
  "getNotificationIcon ''success'' = JString ''fa-check-circle''"
  "getNotificationIcon ''error'' = JString ''fa-exclamation-circle''"
  "getNotificationIcon ''warning'' = JString ''fa-exclamation-triangle''"
  "getNotificationIcon ''info'' = JString ''fa-info-circle''"
  by (simp_all add: getNotificationIcon_def js_or_def get_property_def icons_def)

lemma getNotificationColor_known:
  "getNotificationColor ''success'' = JString ''linear-gradient(90deg, #10b981, #34d399)''"
  "getNotificationColor ''error'' = JString ''linear-gradient(90deg, #ef4444, #f87171)''"
  "getNotificationColor ''warning'' = JString ''linear-gradient(90deg, #f59e0b, #fbbf24)''"
  "getNotificationColor ''info'' = JString ''linear-gradient(90deg, #3b82f6, #60a5fa)''"
  by (simp_all add: getNotificationColor_def js_or_def get_property_def colors_def)

text \<open>
  A string that is neither one of the four severities nor the name of an inherited
  property gets the icon and the colour of \<^verbatim>\<open>info\<close>.
\<close>

lemma getNotification_fallback:
  assumes "type \<notin> {''success'', ''error'', ''warning'', ''info''}"
    and "object_prototype type = JUndefined"
  shows "getNotificationIcon type = JString ''fa-info-circle''"
    and "getNotificationColor type = JString ''linear-gradient(90deg, #3b82f6, #60a5fa)''"
  using assms
  by (simp_all add: getNotificationIcon_def getNotificationColor_def js_or_def get_property_def
      icons_def colors_def)

text \<open>
  C4. The claim says that every string other than the four severities falls back to the
  icon and the colour of \<^verbatim>\<open>info\<close>. The string \<^verbatim>\<open>constructor\<close> does not: both tables
  inherit a property of that name, the read finds the built-in function \<^verbatim>\<open>Object\<close>,
  which is truthy, and \<^verbatim>\<open>||\<close> returns it instead of the \<^verbatim>\<open>info\<close> entry.
\<close>

theorem getNotification_inherited_key:
  "getNotificationIcon ''constructor'' = JFunction ''Object''
   \<and> getNotificationColor ''constructor'' = JFunction ''Object''
   \<and> getNotificationIcon ''constructor'' \<noteq> getNotificationIcon ''info''
   \<and> getNotificationColor ''constructor'' \<noteq> getNotificationColor ''info''"
  by (simp add: getNotificationIcon_def getNotificationColor_def js_or_def get_property_def
      icons_def colors_def object_prototype_def)

section \<open>Loading state and missing elements: results\<close>

lemma loading_null_guard:
  "showLoading None t = None"
  "hideLoading None = None"
  by (simp_all add: showLoading_def hideLoading_def)

lemma handleNavbarScroll_null_guard: "navbar p = None \<Longrightarrow> handleNavbarScroll p = p"
  by (simp add: handleNavbarScroll_def)

text \<open>For an element with some markup inside, hiding after showing is a round trip.\<close>

lemma hideLoading_showLoading_nonempty:
  assumes "innerHTML e \<noteq> []"
  shows "\<exists>e'. hideLoading (showLoading (Some e) t) = Some e' \<and> innerHTML e' = innerHTML e
           \<and> disabled e' = disabled e
           \<and> attributes e' ''data-original-content'' = None
           \<and> attributes e' ''data-original-disabled'' = None"
  using assms by (simp add: hideLoading_def showLoading_def Let_def bool_string_def)

text \<open>
  C10. The claim says that \<^verbatim>\<open>hideLoading\<close> after \<^verbatim>\<open>showLoading\<close> restores the markup of
  every element and removes both saved attributes. For a button with no markup inside,
  the saved content is the empty string, the test \<^verbatim>\<open>if (originalContent)\<close> takes it for
  absent, and the button keeps the spinner and the attribute \<^verbatim>\<open>data-original-content\<close>.
\<close>

theorem hideLoading_empty_content_lost:
  "innerHTML empty_button = []
   \<and> map_option innerHTML (hideLoading (showLoading (Some empty_button) None))
       = Some (spinner @ ''Loading...'')
   \<and> map_option (\<lambda>e. attributes e ''data-original-content'')
       (hideLoading (showLoading (Some empty_button) None)) = Some (Some [])"
  by (simp add: hideLoading_def showLoading_def Let_def bool_string_def empty_button_def)

text \<open>
  C8. The claim says that every function handed a missing element does nothing instead
  of throwing, the form-error helpers included. \<^verbatim>\<open>showLoading\<close>, \<^verbatim>\<open>hideLoading\<close> and
  \<^verbatim>\<open>handleNavbarScroll\<close> test their element first; \<^verbatim>\<open>showFormError\<close> and
  \<^verbatim>\<open>clearFormError\<close> do not, and throw a \<^verbatim>\<open>TypeError\<close> on \<^verbatim>\<open>null\<close>.
\<close>

theorem showFormError_null_throws:
  "showFormError None ''Required''
     = Inl (Exn TypeError ''Cannot read properties of null (reading parentNode)'')
   \<and> clearFormError None
     = Inl (Exn TypeError ''Cannot read properties of null (reading classList)'')"
  by (simp add: showFormError_def clearFormError_def)

section \<open>The request wrapper: results\<close>

lemma show_nat_not_empty: "show_nat n \<noteq> []"
  by (subst show_nat.simps) simp

text \<open>
  When the promise of \<^verbatim>\<open>fetch\<close> rejects with an error object, or the status is not a
  success, the result is the failure shape with a message that is not empty; when the
  response is a success and its body decodes, the result is the success shape with the
  payload.
\<close>

lemma apiRequest_results:
  "fetch url (mergedOptions opts) = Rejected (ThrownError e) \<Longrightarrow>
     \<exists>m. settled (apiRequest fetch url opts) = Inr (Failure (JString m)) \<and> m \<noteq> []"
  "fetch url (mergedOptions opts) = Resolved r \<Longrightarrow> \<not> ok r \<Longrightarrow>
     settled (apiRequest fetch url opts)
       = Inr (Failure (JString (''HTTP error! status: '' @ show_nat (status r))))"
  "fetch url (mergedOptions opts) = Resolved r \<Longrightarrow> ok r \<Longrightarrow> json r = Inr d \<Longrightarrow>
     settled (apiRequest fetch url opts) = Inr (Success d)"
  by (simp_all add: apiRequest_def apiRequest_try_def apiRequest_catch_def js_or_def)

text \<open>
  C5. The claim says that for every url and options \<^verbatim>\<open>apiRequest\<close> never rejects to its
  caller. The options can carry a signal, and a signal aborted with the reason
  \<^verbatim>\<open>null\<close> makes the promise of \<^verbatim>\<open>fetch\<close> reject with \<^verbatim>\<open>null\<close>. The \<^verbatim>\<open>catch\<close> block then
  reads \<^verbatim>\<open>error.message\<close> of \<^verbatim>\<open>null\<close>, which throws, and the promise of \<^verbatim>\<open>apiRequest\<close>
  rejects with that \<^verbatim>\<open>TypeError\<close>. Without the signal the same host gives the success
  result.
\<close>

theorem apiRequest_rejects_on_null_reason:
  "settled (apiRequest signal_fetch ''/api'' (Some [''signal'' \<mapsto> OSignal (Some ThrownNull)]))
     = Inl (Exn TypeError ''Cannot read properties of null (reading message)'')
   \<and> settled (apiRequest signal_fetch ''/api'' None) = Inr (Success 7)"
  by (simp add: apiRequest_def apiRequest_try_def apiRequest_catch_def signal_fetch_def
      mergedOptions_def defaultOptions_def)

text \<open>
  C6, as the claim states it: a caller who overrides one header keeps the other default
  headers. A caller who passes only an \<^verbatim>\<open>Accept\<close> header gets a request without the
  default \<^verbatim>\<open>Content-Type\<close>: the spread replaces the \<^verbatim>\<open>headers\<close> object as a whole.
\<close>

theorem mergedOptions_drops_default_header:
  "request_header
     (mergedOptions (Some [''headers'' \<mapsto> OHeaders [(''Accept'', ''text/html'')]]))
     ''Content-Type'' = None
   \<and> request_header (mergedOptions None) ''Content-Type'' = Some ''application/json''"
  by (simp add: mergedOptions_def defaultOptions_def request_header_def default_headers_def)

text \<open>
  C6, amended. A call of \<^verbatim>\<open>apiRequest\<close> issues one request, to the url it was given. Its
  \<^verbatim>\<open>headers\<close> option is the caller's \<^verbatim>\<open>headers\<close> value as a whole when the caller supplies
  one, and otherwise the two JSON defaults, \<^verbatim>\<open>Content-Type\<close> and \<^verbatim>\<open>Accept\<close> set to
  \<^verbatim>\<open>application/json\<close>. Its \<^verbatim>\<open>credentials\<close> option is the caller's when supplied and
  \<^verbatim>\<open>same-origin\<close> otherwise. Every other option is the caller's, as it is. The result
  of the call depends on the host only through what the host answers to that request.
\<close>

theorem apiRequest_request_options:
  "\<exists>init. requests (apiRequest fetch url opts) = [(url, init)]
     \<and> init ''headers''
         = (case supplied opts ''headers'' of
              None \<Rightarrow> Some (OHeaders [(''Content-Type'', ''application/json''),
                                        (''Accept'', ''application/json'')])
            | Some v \<Rightarrow> Some v)
     \<and> init ''credentials''
         = (case supplied opts ''credentials'' of
              None \<Rightarrow> Some (OString ''same-origin'')
            | Some v \<Rightarrow> Some v)
     \<and> (\<forall>k. k \<noteq> ''headers'' \<and> k \<noteq> ''credentials'' \<longrightarrow> init k = supplied opts k)
     \<and> (\<forall>other. other url init = fetch url init
           \<longrightarrow> settled (apiRequest other url opts) = settled (apiRequest fetch url opts))"
  by (auto simp: apiRequest_def apiRequest_try_def mergedOptions_def defaultOptions_def
      default_headers_def supplied_def map_add_def split: option.splits)

theorem apiRequest_request_options_witness:
  "map (\<lambda>(u, init). (u, init ''headers'', init ''credentials'', init ''method'', init ''body''))
     (requests (apiRequest good_fetch ''/api''
        (Some [''headers'' \<mapsto> OHeaders [(''Authorization'', ''Bearer t'')],
               ''method'' \<mapsto> OString ''POST''])))
     = [(''/api'', Some (OHeaders [(''Authorization'', ''Bearer t'')]),
         Some (OString ''same-origin''), Some (OString ''POST''), None)]
   \<and> map (\<lambda>(u, init). (u, init ''headers'', init ''credentials''))
       (requests (apiRequest good_fetch ''/api'' None))
     = [(''/api'', Some (OHeaders [(''Content-Type'', ''application/json''),
                                   (''Accept'', ''application/json'')]),
         Some (OString ''same-origin''))]
   \<and> signal_fetch ''/api'' (mergedOptions None) = good_fetch ''/api'' (mergedOptions None)
   \<and> settled (apiRequest signal_fetch ''/api'' None) = Inr (Success 7)
   \<and> settled (apiRequest good_fetch ''/api'' None) = Inr (Success 7)"
  using apiRequest_request_options
          [of good_fetch "''/api''"
             "Some [''headers'' \<mapsto> OHeaders [(''Authorization'', ''Bearer t'')],
                    ''method'' \<mapsto> OString ''POST'']"]
    apiRequest_request_options [of good_fetch "''/api''" None]
  by (simp add: apiRequest_def apiRequest_try_def mergedOptions_def defaultOptions_def
      default_headers_def good_fetch_def signal_fetch_def)

section \<open>The mobile menu: results\<close>

lemmas menu_defs = click_event_def keydown_event_def menu_installed_def toggleMobileMenu_def
  closeMobileMenu_def handleClickOutside_def menuKeydown_def menu_open_def toggle_icon_def
  shows_open_def shows_closed_def classList_toggle_def classList_add_def classList_remove_def
  classList_contains_def

text \<open>
  On a page that has the toggle and the menu, a click whose target is the toggle
  itself takes the closed menu to open, with page scroll disabled and the close glyph
  on the toggle. From the open menu, a click on the toggle or inside it, the escape key
  and a click outside both the menu and the toggle each take it to closed, with scroll
  restored and the bars glyph back.
\<close>

lemma mobile_menu_transitions:
  assumes "menu_installed p"
  shows "(\<not> menu_open p \<longrightarrow>
            (\<exists>p'. click_event \<lparr>place = ToggleItself, target_in_navLinks = n\<rparr> p = Inr p'
                 \<and> shows_open p'))
       \<and> (menu_open p \<longrightarrow>
            (\<exists>p'. click_event \<lparr>place = ToggleItself, target_in_navLinks = n\<rparr> p = Inr p'
                 \<and> shows_closed p')
          \<and> (\<exists>p'. click_event \<lparr>place = InsideToggle, target_in_navLinks = n\<rparr> p = Inr p'
                 \<and> shows_closed p')
          \<and> (\<exists>p'. keydown_event ''Escape'' p = Inr p' \<and> shows_closed p')
          \<and> (\<exists>p'. click_event \<lparr>place = OutsideToggle, target_in_navLinks = False\<rparr> p = Inr p'
                 \<and> shows_closed p'))"
  using assms
  by (auto simp: menu_defs target_at_dispatch_def target_after_toggle_def Let_def)

text \<open>
  C7. The claim says that from Closed a toggle activation takes the menu to Open. A
  click on the icon inside the toggle does not. \<^verbatim>\<open>toggleMobileMenu\<close> opens the menu and
  replaces the markup of the toggle, which takes the clicked icon out of the document.
  The same click then reaches \<^verbatim>\<open>handleClickOutside\<close>, which finds the menu open and the
  target neither in the menu nor in the toggle, and closes the menu again: the page is
  as it was. A click whose target is the toggle itself does open the menu.
\<close>

theorem toggle_icon_click_stays_closed:
  "menu_installed closed_page \<and> \<not> menu_open closed_page
   \<and> toggle_icon closed_page = Some bars_icon
   \<and> click_event \<lparr>place = InsideToggle, target_in_navLinks = False\<rparr> closed_page
       = Inr closed_page
   \<and> click_event \<lparr>place = ToggleItself, target_in_navLinks = False\<rparr> closed_page
       = Inr open_page
   \<and> menu_open open_page"
  by (simp add: menu_defs target_at_dispatch_def target_after_toggle_def Let_def
      closed_page_def open_page_def)

section \<open>Notifications and the modal: results\<close>

lemmas world_defs = showModal_def closeModal_def teardown_def remove_node_def setTimeout_def
  set_animation_def fire_timer_def run_def keydown_def closeOnEscape_def overlay_click_def
  showNotification_def notification_close_click_def auto_dismiss_def updateContent_def

subsection \<open>One modal element\<close>

lemma find_filter_single:
  assumes "length (filter P xs) \<le> 1" "List.find P xs = Some b"
  shows "filter P (removeAll b xs) = []"
proof -
  from assms(2) have b: "b \<in> set xs" "P b"
    by (auto simp: find_Some_iff)
  then have "b \<in> set (filter P xs)" by simp
  with assms(1) have "filter P xs = [b]"
    by (cases "filter P xs") auto
  then have "set (filter P xs) = {b}" by simp
  then have "\<forall>x \<in> set xs. P x \<longrightarrow> x = b" by auto
  then show ?thesis by (auto simp: filter_empty_conv)
qed

lemma showModal_fields:
  "fst (showModal opts w) = next_node w"
  "calls (snd (showModal opts w)) = calls w"
  "timers (snd (showModal opts w)) = timers w"
  "uncaught (snd (showModal opts w)) = uncaught w"
  "next_node (snd (showModal opts w)) = Suc (next_node w)"
  "keydown_listeners (snd (showModal opts w)) = keydown_listeners w @ [CloseOnEscape (next_node w)]"
  "overflow (snd (showModal opts w)) = ''hidden''"
  by (simp_all add: showModal_def Let_def remove_node_def split: option.splits)

lemma showModal_single:
  assumes "well_formed w" "length (modal_elements w) \<le> 1"
  shows "modal_elements (snd (showModal opts w)) = [next_node w]"
proof -
  have fresh: "next_node w \<notin> set (body w)"
    using assms(1) by (auto simp: well_formed_def list_all_iff)
  show ?thesis
  proof (cases "List.find (\<lambda>b. el_id (nodes w b) = ''dynamic-modal'') (body w)")
    case None
    then have "filter (\<lambda>b. el_id (nodes w b) = ''dynamic-modal'') (body w) = []"
      by (auto simp: find_None_iff filter_empty_conv)
    with None fresh show ?thesis
      by (auto simp: showModal_def Let_def modal_elements_def filter_empty_conv cong: filter_cong)
  next
    case (Some b)
    have "filter (\<lambda>b. el_id (nodes w b) = ''dynamic-modal'') (removeAll b (body w)) = []"
      using find_filter_single [OF _ Some] assms(2) by (simp add: modal_elements_def)
    moreover have "b \<in> set (body w)" using Some by (auto simp: find_Some_iff)
    ultimately show ?thesis using Some fresh
      by (auto simp: showModal_def Let_def modal_elements_def remove_node_def filter_empty_conv cong: filter_cong)
  qed
qed

lemma showModal_well_formed:
  assumes "well_formed w"
  shows "well_formed (snd (showModal opts w))"
  using assms
  by (auto simp: showModal_def Let_def well_formed_def remove_node_def list_all_iff find_Some_iff
      split: option.splits)

text \<open>
  C3. In a well-formed world with at most one element of id \<^verbatim>\<open>dynamic-modal\<close>, two calls
  of \<^verbatim>\<open>showModal\<close> in a row leave exactly one such element in the document, the overlay
  of the second call; its title, body and options are those of the second call; and
  the two calls invoke no \<^verbatim>\<open>onClose\<close> callback, start no timer and throw nothing.
\<close>

theorem showModal_twice:
  assumes "well_formed w" "length (modal_elements w) \<le> 1"
  shows "let (m1, w1) = showModal o1 w; (m2, w2) = showModal o2 w1
         in modal_elements w2 = [m2] \<and> m2 \<noteq> m1
            \<and> modals w2 m2 =
                Some \<lparr>title_text = (case title o2 of None \<Rightarrow> ''Modal''
                                     | Some t \<Rightarrow> if t \<noteq> [] then t else ''Modal''),
                      body_html = (case content o2 of None \<Rightarrow> [] | Some h \<Rightarrow> h),
                      content_animation = ''slideUp 0.3s ease'', options = o2\<rparr>
            \<and> calls w2 = calls w \<and> timers w2 = timers w \<and> uncaught w2 = uncaught w"
proof -
  let ?w1 = "snd (showModal o1 w)"
  have 1: "modal_elements ?w1 = [next_node w]" "well_formed ?w1"
    using assms by (simp_all add: showModal_single showModal_well_formed)
  then have 2: "modal_elements (snd (showModal o2 ?w1)) = [next_node ?w1]"
    by (simp add: showModal_single)
  have 3: "modals (snd (showModal o2 ?w1)) (next_node ?w1) =
                Some \<lparr>title_text = (case title o2 of None \<Rightarrow> ''Modal''
                                     | Some t \<Rightarrow> if t \<noteq> [] then t else ''Modal''),
                      body_html = (case content o2 of None \<Rightarrow> [] | Some h \<Rightarrow> h),
                      content_animation = ''slideUp 0.3s ease'', options = o2\<rparr>"
    by (simp add: showModal_def Let_def remove_node_def split: option.splits)
  show ?thesis
    using 2 3 by (simp add: split_beta showModal_fields)
qed

theorem showModal_twice_witness:
  "well_formed empty_world \<and> length (modal_elements empty_world) \<le> 1
   \<and> modal_elements (run [ShowModal example_options, ShowModal outside_options] empty_world) = [1]
   \<and> map_option title_text
       (modals (run [ShowModal example_options, ShowModal outside_options] empty_world) 1)
       = Some ''Modal''
   \<and> calls (run [ShowModal example_options, ShowModal outside_options] empty_world) = []"
  using showModal_twice [of empty_world example_options outside_options]
  by (simp add: world_defs empty_world_def example_options_def outside_options_def Let_def
      well_formed_def modal_elements_def)

subsection \<open>Closing a modal more than once\<close>

text \<open>
  C1. The claim says that a repeated \<^verbatim>\<open>close()\<close> is a safe no-op, that it leaves one
  invocation of \<^verbatim>\<open>onClose\<close> and that nothing throws. On the empty page a modal is shown
  and closed by its close button, and its teardown has run. A further \<^verbatim>\<open>close()\<close> on
  the handle appends one more style element and starts one more teardown timer, and
  the callback of that timer throws at \<^verbatim>\<open>document.body.removeChild\<close>, the overlay being
  no child of the body any more. Two calls of \<^verbatim>\<open>close()\<close> on the open modal end the same
  way: the first teardown calls \<^verbatim>\<open>onClose\<close>, the second throws before it gets there.
\<close>

theorem repeated_close_not_noop:
  "modal_elements closed_world = [] \<and> uncaught closed_world = []
   \<and> head_styles (step (HandleClose 0) closed_world) \<noteq> head_styles closed_world
   \<and> timers (step (HandleClose 0) closed_world) \<noteq> timers closed_world
   \<and> uncaught (run [HandleClose 0, Timer 0] closed_world)
       = [Exn NotFoundError ''The node to be removed is not a child of this node.'']
   \<and> uncaught (run [HandleClose 0, HandleClose 0, Timer 0, Timer 0] opened_world)
       = [Exn NotFoundError ''The node to be removed is not a child of this node.'']
   \<and> calls (run [HandleClose 0, HandleClose 0, Timer 0, Timer 0] opened_world) = [(0, 0)]"
  by (simp add: closed_world_def opened_world_def world_defs empty_world_def
      example_options_def Let_def modal_elements_def)

text \<open>
  C2. The claim says that the escape-key listener of a modal is deregistered when the
  modal closes, whichever way it was dismissed. Only the listener itself deregisters
  it, when the escape key arrives. After a dismissal by the close button the modal is
  gone and its listener is still on the document; a second modal opened and closed by
  its handle leaves two. A dismissal by the escape key leaves none.
\<close>

theorem escape_listener_leaks:
  "modal_elements closed_world = []
   \<and> keydown_listeners closed_world = [CloseOnEscape 0]
   \<and> keydown_listeners (run [ShowModal example_options, HandleClose 1, Timer 0] closed_world)
       = [CloseOnEscape 0, CloseOnEscape 1]
   \<and> keydown_listeners (run [KeyDown ''Escape'', Timer 0] opened_world) = []"
  by (simp add: closed_world_def opened_world_def world_defs empty_world_def
      example_options_def Let_def modal_elements_def)

subsection \<open>Dismissing a notification\<close>

lemma well_formed_frame:
  assumes "body w' = body w" "detached w' = detached w" "next_node w' = next_node w"
  shows "well_formed w' = well_formed w"
  using assms by (simp add: well_formed_def)

lemma well_formed_remove_node: "well_formed w \<Longrightarrow> well_formed (remove_node b w)"
  by (auto simp: well_formed_def remove_node_def list_all_iff)

lemma well_formed_showNotification:
  assumes "well_formed w"
  shows "well_formed (snd (showNotification msg type duration w))"
  using assms
  by (auto simp: showNotification_def setTimeout_def Let_def well_formed_def remove_node_def
      list_all_iff find_Some_iff split: option.splits)

lemma well_formed_closeModal: "well_formed (closeModal m w) = well_formed w"
  by (rule well_formed_frame)
     (simp_all add: closeModal_def setTimeout_def set_animation_def Let_def split: option.splits)

lemma well_formed_teardown: "well_formed w \<Longrightarrow> well_formed (teardown m w)"
  by (auto simp: teardown_def well_formed_def list_all_iff Let_def split: option.splits)

lemma well_formed_auto_dismiss: "well_formed (auto_dismiss n w) = well_formed w"
  by (rule well_formed_frame) (simp_all add: auto_dismiss_def setTimeout_def set_animation_def)

lemma well_formed_notification_close_click:
  "well_formed (notification_close_click n w) = well_formed w"
  by (rule well_formed_frame)
     (simp_all add: notification_close_click_def setTimeout_def set_animation_def)

lemma well_formed_updateContent: "well_formed (updateContent m c w) = well_formed w"
  by (rule well_formed_frame) (simp_all add: updateContent_def split: option.splits)

lemma well_formed_overlay_click: "well_formed (overlay_click m b w) = well_formed w"
  by (simp add: overlay_click_def well_formed_closeModal split: option.splits)

lemma well_formed_closeOnEscape: "well_formed (closeOnEscape m key w) = well_formed w"
proof -
  have "well_formed (closeOnEscape m key w) = well_formed (closeModal m w)"
    by (rule well_formed_frame) (simp_all add: closeOnEscape_def Let_def closeModal_def setTimeout_def set_animation_def split: option.splits)
  then show ?thesis by (simp add: well_formed_closeModal)
qed

lemma well_formed_fold_listeners:
  "well_formed w \<Longrightarrow> well_formed (fold (run_listener key) ls w)"
proof (induction ls arbitrary: w)
  case Nil
  then show ?case by simp
next
  case (Cons l ls)
  have "well_formed (run_listener key l w)"
    using Cons.prems by (cases l) (simp add: well_formed_closeOnEscape)
  then show ?case using Cons.IH by simp
qed

lemma well_formed_run_callback: "well_formed w \<Longrightarrow> well_formed (run_callback cb w)"
  by (cases cb) (simp_all add: well_formed_remove_node well_formed_auto_dismiss well_formed_teardown)

lemma well_formed_fire_timer:
  assumes "well_formed w"
  shows "well_formed (fire_timer k w)"
proof (cases "k < length (timers w)")
  case True
  have "well_formed (w\<lparr>timers := take k (timers w) @ drop (Suc k) (timers w)\<rparr>)"
    using assms by (simp add: well_formed_def)
  then show ?thesis using True by (simp add: fire_timer_def well_formed_run_callback)
next
  case False
  then show ?thesis using assms by (simp add: fire_timer_def)
qed

lemma well_formed_step: "well_formed w \<Longrightarrow> well_formed (step e w)"
  by (cases e)
     (simp_all add: well_formed_showNotification well_formed_notification_close_click
        showModal_well_formed well_formed_closeModal well_formed_updateContent
        well_formed_overlay_click keydown_def well_formed_fold_listeners well_formed_fire_timer)

lemma well_formed_run: "well_formed w \<Longrightarrow> well_formed (run es w)"
  unfolding run_def by (induction es arbitrary: w) (simp_all add: well_formed_step)

lemma distinct_count_le_1: "distinct xs \<Longrightarrow> count_list xs x \<le> 1"
  by (induction xs) (auto simp: count_list_0_iff)

lemma detached_once: "well_formed w \<Longrightarrow> count_list (detached w) n \<le> 1"
  using distinct_count_le_1 [of "detached w" n] by (simp add: well_formed_def)

lemma uncaught_step_notification:
  assumes "no_teardown_pending w" "notification_event e"
  shows "uncaught (step e w) = uncaught w \<and> no_teardown_pending (step e w)"
proof (cases e)
  case (ShowNotification msg type duration)
  then show ?thesis using assms(1)
    by (simp add: showNotification_def setTimeout_def remove_node_def Let_def
        no_teardown_pending_def split: option.splits)
next
  case (NotificationCloseClick n)
  then show ?thesis using assms(1)
    by (simp add: notification_close_click_def setTimeout_def set_animation_def
        no_teardown_pending_def)
next
  case (Timer k)
  show ?thesis
  proof (cases "k < length (timers w)")
    case True
    let ?w = "w\<lparr>timers := take k (timers w) @ drop (Suc k) (timers w)\<rparr>"
    have rest: "no_teardown_pending ?w"
      using assms(1)
      by (auto simp: no_teardown_pending_def list_all_iff dest: in_set_takeD in_set_dropD)
    have cb: "notification_callback (fst (timers w ! k))"
      using assms(1) True by (simp add: no_teardown_pending_def list_all_length)
    have "uncaught (run_callback (fst (timers w ! k)) ?w) = uncaught w
          \<and> no_teardown_pending (run_callback (fst (timers w ! k)) ?w)"
      using cb rest
      by (cases "fst (timers w ! k)")
         (simp_all add: remove_node_def auto_dismiss_def setTimeout_def set_animation_def
            no_teardown_pending_def)
    then show ?thesis using True Timer by (simp add: fire_timer_def)
  next
    case False
    then show ?thesis using assms(1) Timer by (simp add: fire_timer_def)
  qed
qed (use assms(2) in simp_all)

lemma uncaught_run_notification:
  "no_teardown_pending w \<Longrightarrow> list_all notification_event es \<Longrightarrow> uncaught (run es w) = uncaught w"
  unfolding run_def
proof (induction es arbitrary: w)
  case Nil
  then show ?case by simp
next
  case (Cons e es)
  then have "uncaught (step e w) = uncaught w" "no_teardown_pending (step e w)"
    using uncaught_step_notification [of w e] by simp_all
  then show ?case using Cons by simp
qed

lemma fire_timer_last:
  "timers w = ts @ [(cb, d)] \<Longrightarrow> fire_timer (length ts) w = run_callback cb (w\<lparr>timers := ts\<rparr>)"
  by (simp add: fire_timer_def nth_append)

lemma showNotification_created:
  assumes "close_button_found msg"
  shows "fst (showNotification msg type duration w) = None"
    and "next_node w \<in> set (notifications (snd (showNotification msg type duration w)))"
    and "next_node w \<in> set (body (snd (showNotification msg type duration w)))"
    and "timers (snd (showNotification msg type duration w))
           = timers w @ [(AutoDismiss (next_node w), case duration of None \<Rightarrow> 3000 | Some d \<Rightarrow> d)]"
  using assms
  by (simp_all add: showNotification_def setTimeout_def remove_node_def Let_def
      split: option.splits)

lemma close_click_routine:
  assumes "n \<in> set (notifications w)"
  shows "animation (nodes (notification_close_click n w) n) = ''slideOut 0.3s ease forwards''"
    and "timers (notification_close_click n w) = timers w @ [(RemoveNotification n, 300)]"
    and "body (notification_close_click n w) = body w"
    and "detached (notification_close_click n w) = detached w"
  using assms by (simp_all add: notification_close_click_def setTimeout_def set_animation_def)

lemma same_teardown:
  "n \<in> set (notifications w) \<Longrightarrow> n \<in> set (body w) \<Longrightarrow>
     auto_dismiss n w = notification_close_click n w"
  by (simp add: auto_dismiss_def notification_close_click_def)

lemma removal_timer_removes:
  assumes "n \<in> set (notifications w)" "n \<in> set (body w)"
  shows "body (fire_timer (length (timers w)) (notification_close_click n w)) = removeAll n (body w)"
    and "detached (fire_timer (length (timers w)) (notification_close_click n w)) = detached w @ [n]"
    and "timers (fire_timer (length (timers w)) (notification_close_click n w)) = timers w"
proof -
  let ?w1 = "notification_close_click n w"
  have "fire_timer (length (timers w)) ?w1 = remove_node n (?w1\<lparr>timers := timers w\<rparr>)"
    using fire_timer_last [OF close_click_routine(2) [OF assms(1)]] by simp
  then show "body (fire_timer (length (timers w)) ?w1) = removeAll n (body w)"
    and "detached (fire_timer (length (timers w)) ?w1) = detached w @ [n]"
    and "timers (fire_timer (length (timers w)) ?w1) = timers w"
    using close_click_routine [OF assms(1)] assms(2) by (simp_all add: remove_node_def)
qed

text \<open>
  C9. In a well-formed world, \<^verbatim>\<open>showNotification\<close> with a message that leaves the close
  button in place attaches a new notification, installs the listener of its close
  button and starts the timer of its automatic dismissal. For a displayed notification,
  a click on the close button sets the exit animation and starts a 300 ms timer while
  the element stays attached, and that timer takes the element out of the document;
  the callback of the automatic dismissal does exactly the same. Whatever events follow
  and in whatever order the timers run, no element is taken out of the document twice;
  and as long as the events are notification calls, close clicks and timers, with no
  teardown of a modal pending, no listener or timer callback throws.
\<close>

theorem notification_dismissal_safe:
  assumes "well_formed w"
  shows "(close_button_found msg \<longrightarrow>
            (let w' = snd (showNotification msg type duration w)
             in fst (showNotification msg type duration w) = None
                \<and> well_formed w'
                \<and> next_node w \<in> set (notifications w') \<and> next_node w \<in> set (body w')
                \<and> timers w' = timers w @ [(AutoDismiss (next_node w),
                                            case duration of None \<Rightarrow> 3000 | Some d \<Rightarrow> d)]))
       \<and> (n \<in> set (notifications w) \<and> n \<in> set (body w) \<longrightarrow>
            (let w1 = step (NotificationCloseClick n) w;
                 w2 = step (Timer (length (timers w))) w1
             in run_callback (AutoDismiss n) w = w1
                \<and> animation (nodes w1 n) = ''slideOut 0.3s ease forwards''
                \<and> timers w1 = timers w @ [(RemoveNotification n, 300)]
                \<and> body w1 = body w
                \<and> body w2 = removeAll n (body w)
                \<and> detached w2 = detached w @ [n]
                \<and> timers w2 = timers w))
       \<and> count_list (detached (run es w)) n \<le> 1
       \<and> (no_teardown_pending w \<and> list_all notification_event es
            \<longrightarrow> uncaught (run es w) = uncaught w)"
proof -
  have created: "close_button_found msg \<longrightarrow>
            (let w' = snd (showNotification msg type duration w)
             in fst (showNotification msg type duration w) = None
                \<and> well_formed w'
                \<and> next_node w \<in> set (notifications w') \<and> next_node w \<in> set (body w')
                \<and> timers w' = timers w @ [(AutoDismiss (next_node w),
                                            case duration of None \<Rightarrow> 3000 | Some d \<Rightarrow> d)])"
    using showNotification_created well_formed_showNotification [OF assms]
    by (simp add: Let_def)
  have routine: "n \<in> set (notifications w) \<and> n \<in> set (body w) \<longrightarrow>
            (let w1 = step (NotificationCloseClick n) w;
                 w2 = step (Timer (length (timers w))) w1
             in run_callback (AutoDismiss n) w = w1
                \<and> animation (nodes w1 n) = ''slideOut 0.3s ease forwards''
                \<and> timers w1 = timers w @ [(RemoveNotification n, 300)]
                \<and> body w1 = body w
                \<and> body w2 = removeAll n (body w)
                \<and> detached w2 = detached w @ [n]
                \<and> timers w2 = timers w)"
    using same_teardown [of n w] close_click_routine [of n w] removal_timer_removes [of n w]
    by (simp add: Let_def)
  show ?thesis
    using created routine detached_once [OF well_formed_run [OF assms], of es n]
    by (simp add: uncaught_run_notification)
qed

theorem notification_dismissal_safe_witness:
  "well_formed empty_world
   \<and> close_button_found \<lparr>markup = ''Saved'', close_button_found = True\<rparr>
   \<and> timers notified_world = [(AutoDismiss 0, 3000)]
   \<and> well_formed notified_world
   \<and> 0 \<in> set (notifications notified_world) \<and> 0 \<in> set (body notified_world)
   \<and> no_teardown_pending notified_world
   \<and> list_all notification_event [NotificationCloseClick 0, Timer 0, Timer 0, Timer 0]
   \<and> animation (nodes (step (NotificationCloseClick 0) notified_world) 0)
       = ''slideOut 0.3s ease forwards''
   \<and> body (run [NotificationCloseClick 0, Timer 1] notified_world) = []
   \<and> detached (run [NotificationCloseClick 0, Timer 0, Timer 0, Timer 0] notified_world) = [0]
   \<and> uncaught (run [NotificationCloseClick 0, Timer 0, Timer 0, Timer 0] notified_world) = []"
  using notification_dismissal_safe
          [of empty_world "\<lparr>markup = ''Saved'', close_button_found = True\<rparr>" "Some ''success''"
             None 0 "[]"]
    notification_dismissal_safe
          [of notified_world "\<lparr>markup = ''Saved'', close_button_found = True\<rparr>" None None 0
             "[NotificationCloseClick 0, Timer 0, Timer 0, Timer 0]"]
  by (simp add: notified_world_def world_defs empty_world_def Let_def well_formed_def
      no_teardown_pending_def classList_contains_def)

end
